theory Spec2Isabelle
  imports Complex_Main
begin

section \<open>Python values used by the dialer\<close>

text \<open>
  A Python \<open>dict\<close> keeps its keys in insertion order, and two loops of the program
  (\<open>_handle_hangup\<close>, \<open>_predict_agents_becoming_free\<close>) iterate over \<open>items()\<close>.
  A dict is therefore a list of key/value pairs in insertion order; \<open>d[k] = v\<close>
  overwrites in place when the key is present and appends otherwise, \<open>del d[k]\<close>
  removes the entry.
\<close>

type_synonym ('k, 'v) dict = "('k \<times> 'v) list"

definition dict_get :: "('k, 'v) dict \<Rightarrow> 'k \<Rightarrow> 'v option" where
  "dict_get d k = map_of d k"

fun dict_set :: "('k, 'v) dict \<Rightarrow> 'k \<Rightarrow> 'v \<Rightarrow> ('k, 'v) dict" where
  "dict_set [] k v = [(k, v)]"
| "dict_set ((k', v') # d) k v =
     (if k' = k then (k, v) # d else (k', v') # dict_set d k v)"

fun dict_del :: "('k, 'v) dict \<Rightarrow> 'k \<Rightarrow> ('k, 'v) dict" where
  "dict_del [] k = []"
| "dict_del ((k', v') # d) k = (if k' = k then d else (k', v') # dict_del d k)"

text \<open>
  \<open>datetime\<close> values have microsecond resolution: a point in time is the number of
  microseconds since the epoch. Each operation that reads \<open>datetime.utcnow()\<close>
  takes the clock reading as its argument \<open>now\<close>.
\<close>

type_synonym datetime = int

definition timedelta_minutes :: "int \<Rightarrow> int" where
  "timedelta_minutes m = m * 60 * 1000000"

text \<open>\<open>int(delta.total_seconds())\<close>: whole seconds, truncated towards zero.\<close>

definition whole_seconds :: "int \<Rightarrow> int" where
  "whole_seconds d = (if 0 \<le> d then d div 1000000 else - ((- d) div 1000000))"

text \<open>Truth value of an \<open>Optional[int]\<close> in an \<open>if\<close>: neither \<open>None\<close> nor zero.\<close>

definition truthy_int :: "int option \<Rightarrow> bool" where
  "truthy_int x = (case x of None \<Rightarrow> False | Some n \<Rightarrow> n \<noteq> 0)"

section \<open>Agent registry (\<open>DialerService.agent_statuses\<close>)\<close>

record AgentStatus =
  agent_id :: int
  status :: string
  current_call_id :: "int option"
  last_call_end :: "datetime option"
  calls_today :: int
  talk_time_today :: int

text \<open>The dataclass constructor \<open>AgentStatus(agent_id=a, status=s)\<close> with its defaults.\<close>

definition new_AgentStatus :: "int \<Rightarrow> string \<Rightarrow> AgentStatus" where
  "new_AgentStatus a s =
     \<lparr>agent_id = a, status = s, current_call_id = None, last_call_end = None,
      calls_today = 0, talk_time_today = 0\<rparr>"

type_synonym registry = "(int, AgentStatus) dict"

text \<open>
  \<open>DialerService.update_agent_status\<close>. The entry of the agent is created or gets
  the new status; then a truthy \<open>call_id\<close> is stored, and otherwise the status
  \<open>available\<close> clears the call and stamps \<open>last_call_end\<close>.
\<close>

definition update_agent_status ::
  "registry \<Rightarrow> datetime \<Rightarrow> int \<Rightarrow> string \<Rightarrow> int option \<Rightarrow> registry" where
  "update_agent_status reg now a s call_id =
     (let e1 = (case dict_get reg a of
                  None \<Rightarrow> new_AgentStatus a s
                | Some e \<Rightarrow> e\<lparr>status := s\<rparr>);
          e2 = (if truthy_int call_id then e1\<lparr>current_call_id := call_id\<rparr>
                else if s = ''available''
                     then e1\<lparr>current_call_id := None, last_call_end := Some now\<rparr>
                else e1)
      in dict_set reg a e2)"

text \<open>
  The loop of \<open>DialerService.get_available_agents\<close> over the assigned agent ids:
  a tracked agent is kept when its status is \<open>available\<close>; an untracked agent gets
  a fresh \<open>available\<close> entry and is kept.
\<close>

fun available_loop :: "int list \<Rightarrow> registry \<Rightarrow> int list \<Rightarrow> registry \<times> int list" where
  "available_loop [] reg acc = (reg, acc)"
| "available_loop (a # as) reg acc =
     (case dict_get reg a of
        Some e \<Rightarrow>
          (if status e = ''available'' then available_loop as reg (acc @ [a])
           else available_loop as reg acc)
      | None \<Rightarrow>
          available_loop as (dict_set reg a (new_AgentStatus a ''available'')) (acc @ [a]))"

section \<open>Persistent rows (\<open>src.models\<close>)\<close>

text \<open>
  The rows of the SQLAlchemy models, with the columns the dialer reads or writes.
  Every selector is the column name prefixed by its table, since several tables
  share column names (\<open>id\<close>, \<open>campaign_id\<close>, \<open>phone_number\<close>, \<open>status\<close>).
  A nullable \<open>DateTime\<close> column is an \<open>option\<close>. \<open>Lead.phone_number\<close> and
  \<open>Call.phone_number\<close> are declared \<open>nullable=False\<close>, so they are plain strings.
  A table is the list of its rows in the order an unordered query returns them.
\<close>

record Campaign =
  campaign_id :: int
  campaign_dialer_mode :: string
  campaign_max_attempts :: int
  campaign_retry_delay_minutes :: int

record CampaignAssignment =
  assignment_campaign_id :: int
  assignment_user_id :: int

record Lead =
  lead_id :: int
  lead_campaign_id :: int
  lead_phone_number :: string
  lead_status :: string
  lead_priority :: int
  lead_last_contacted :: "datetime option"
  lead_next_contact_date :: "datetime option"

record Call =
  call_id :: int
  call_lead_id :: int
  call_campaign_id :: int
  call_agent_id :: "int option"
  call_phone_number :: string
  call_direction :: string
  call_status :: string
  call_started_at :: "datetime option"
  call_answered_at :: "datetime option"
  call_ended_at :: "datetime option"
  call_duration_seconds :: "int option"

type_synonym message = "(string, string) dict"

record CallEvent =
  event_call_id :: int
  event_type :: string
  event_data :: "message option"
  event_timestamp :: "datetime option"

record SipConfiguration =
  config_id :: int
  config_username :: string
  config_is_active :: bool

record Database =
  campaigns :: "Campaign list"
  assignments :: "CampaignAssignment list"
  leads :: "Lead list"
  calls :: "Call list"
  call_events :: "CallEvent list"
  sip_configurations :: "SipConfiguration list"

text \<open>\<open>Model.query.get(id)\<close>: the row with that primary key, if any.\<close>

definition get_campaign :: "Database \<Rightarrow> int \<Rightarrow> Campaign option" where
  "get_campaign db i = find (\<lambda>c. campaign_id c = i) (campaigns db)"

definition get_lead :: "Database \<Rightarrow> int \<Rightarrow> Lead option" where
  "get_lead db i = find (\<lambda>l. lead_id l = i) (leads db)"

definition get_call :: "Database \<Rightarrow> int \<Rightarrow> Call option" where
  "get_call db i = find (\<lambda>c. call_id c = i) (calls db)"

text \<open>\<open>CampaignAssignment.query.filter_by(campaign_id=c).all()\<close>, then the user ids.\<close>

definition assigned_agent_ids :: "Database \<Rightarrow> int \<Rightarrow> int list" where
  "assigned_agent_ids db c =
     map assignment_user_id (filter (\<lambda>a. assignment_campaign_id a = c) (assignments db))"

text \<open>\<open>Call.query.filter_by(lead_id=l)\<close>.\<close>

definition calls_of_lead :: "Database \<Rightarrow> int \<Rightarrow> Call list" where
  "calls_of_lead db l = filter (\<lambda>c. call_lead_id c = l) (calls db)"

text \<open>
  \<open>order_by(Call.started_at.desc()).first()\<close> on SQLite (the engine configured in
  \<open>main.py\<close>): \<open>NULL\<close> sorts below every value, so the head of the descending order
  is a row with the greatest non-null \<open>started_at\<close>, and a row with \<open>NULL\<close> only when
  every row has \<open>NULL\<close>. Among equal keys the earliest row of the table is taken.
\<close>

definition started_later :: "Call \<Rightarrow> Call \<Rightarrow> bool" where
  "started_later c best =
     (case (call_started_at c, call_started_at best) of
        (Some t, Some u) \<Rightarrow> u < t
      | (Some t, None) \<Rightarrow> True
      | (None, _) \<Rightarrow> False)"

fun latest_from :: "Call \<Rightarrow> Call list \<Rightarrow> Call" where
  "latest_from best [] = best"
| "latest_from best (c # cs) = latest_from (if started_later c best then c else best) cs"

definition latest_call :: "Call list \<Rightarrow> Call option" where
  "latest_call cs = (case cs of [] \<Rightarrow> None | c # rest \<Rightarrow> Some (latest_from c rest))"

section \<open>Agent availability (\<open>DialerService.get_available_agents\<close>)\<close>

definition get_available_agents :: "Database \<Rightarrow> registry \<Rightarrow> int \<Rightarrow> registry \<times> int list" where
  "get_available_agents db reg c = available_loop (assigned_agent_ids db c) reg []"

section \<open>Lead selection (\<open>DialerService.get_next_lead\<close>)\<close>

datatype py_error = TypeError | ZeroDivisionError

text \<open>
  The query of \<open>get_next_lead\<close>: leads of the campaign whose status is one of
  \<open>new\<close>, \<open>callback\<close>, \<open>interested\<close>. Its third condition,
  \<open>Lead.phone_number.isnot(None)\<close>, holds of every row, the column being
  \<open>NOT NULL\<close>.
\<close>

definition candidate_leads :: "Database \<Rightarrow> int \<Rightarrow> Lead list" where
  "candidate_leads db c =
     filter (\<lambda>l. lead_campaign_id l = c \<and>
                 lead_status l \<in> set [''new'', ''callback'', ''interested''])
            (leads db)"

text \<open>
  The loop that fills \<open>valid_leads\<close>. \<open>last_call.started_at + timedelta(...)\<close> raises
  \<open>TypeError\<close> when \<open>started_at\<close> is \<open>None\<close>; \<open>continue\<close> skips the lead.
\<close>

fun valid_leads_loop ::
  "Database \<Rightarrow> Campaign \<Rightarrow> datetime \<Rightarrow> Lead list \<Rightarrow> Lead list \<Rightarrow> py_error + Lead list" where
  "valid_leads_loop db campaign now [] valid_leads = Inr valid_leads"
| "valid_leads_loop db campaign now (lead # rest) valid_leads =
     (let call_count = int (length (calls_of_lead db (lead_id lead))) in
      if call_count < campaign_max_attempts campaign then
        (if call_count > 0 then
           (case latest_call (calls_of_lead db (lead_id lead)) of
              Some last_call \<Rightarrow>
                (case call_started_at last_call of
                   None \<Rightarrow> Inl TypeError
                 | Some t \<Rightarrow>
                     (if now < t + timedelta_minutes (campaign_retry_delay_minutes campaign)
                      then valid_leads_loop db campaign now rest valid_leads
                      else valid_leads_loop db campaign now rest (valid_leads @ [lead])))
            | None \<Rightarrow> valid_leads_loop db campaign now rest (valid_leads @ [lead]))
         else valid_leads_loop db campaign now rest (valid_leads @ [lead]))
      else valid_leads_loop db campaign now rest valid_leads)"

definition get_next_lead :: "Database \<Rightarrow> datetime \<Rightarrow> int \<Rightarrow> py_error + Lead option" where
  "get_next_lead db now c =
     (case get_campaign db c of
        None \<Rightarrow> Inr None
      | Some campaign \<Rightarrow>
          (case valid_leads_loop db campaign now (candidate_leads db c) [] of
             Inl e \<Rightarrow> Inl e
           | Inr valid_leads \<Rightarrow>
               Inr (case valid_leads of [] \<Rightarrow> None | l # _ \<Rightarrow> Some l)))"

section \<open>AMI client (\<open>AsteriskAMIClient\<close>)\<close>

text \<open>Python's \<open>str\<close> of an integer, as the f-strings of the program format it.\<close>

fun str_nat :: "nat \<Rightarrow> string" where
  "str_nat n =
     (if n < 10 then [''0123456789'' ! n]
      else str_nat (n div 10) @ [''0123456789'' ! (n mod 10)])"

declare str_nat.simps [simp del]

definition str_int :: "int \<Rightarrow> string" where
  "str_int i = (if i < 0 then CHR ''-'' # str_nat (nat (- i)) else str_nat (nat i))"

text \<open>
  The callables the program registers: the five bound methods of \<open>SipService\<close>
  subscribed to events, and the two closures over a call id passed as response
  callbacks.
\<close>

datatype handler =
    Handle_new_channel | Handle_hangup | Handle_bridge | Handle_dial_begin | Handle_dial_end
  | Handle_originate_response int | Handle_hangup_response int

text \<open>
  The socket is represented by \<open>wire\<close>, the messages written so far, each as its
  \<open>Key: Value\<close> lines. Whether \<open>socket.send\<close> raises is the argument \<open>send_ok\<close>
  of the operations that write.
\<close>

record AsteriskAMIClient =
  authenticated :: bool
  action_id_counter :: int
  event_handlers :: "(string, handler list) dict"
  response_handlers :: "(string, handler) dict"
  wire :: "message list"

datatype ami_exception = Not_authenticated | Socket_error

text \<open>\<open>_get_action_id\<close>; \<open>clock\<close> is \<open>int(time.time())\<close>.\<close>

definition get_action_id :: "AsteriskAMIClient \<Rightarrow> int \<Rightarrow> AsteriskAMIClient \<times> string" where
  "get_action_id cl clock =
     (let n = action_id_counter cl + 1
      in (cl\<lparr>action_id_counter := n\<rparr>, ''action_'' @ str_int n @ ''_'' @ str_int clock))"

definition send_action ::
  "AsteriskAMIClient \<Rightarrow> int \<Rightarrow> bool \<Rightarrow> string \<Rightarrow> message \<Rightarrow> handler option
     \<Rightarrow> AsteriskAMIClient \<times> (ami_exception + string)" where
  "send_action cl clock send_ok action parameters callback =
     (if \<not> authenticated cl then (cl, Inl Not_authenticated)
      else
        (let (cl1, action_id) = get_action_id cl clock;
             msg = [(''Action'', action), (''ActionID'', action_id)] @ parameters;
             cl2 = (case callback of
                      Some h \<Rightarrow> cl1\<lparr>response_handlers := dict_set (response_handlers cl1) action_id h\<rparr>
                    | None \<Rightarrow> cl1)
         in if send_ok then (cl2\<lparr>wire := wire cl2 @ [msg]\<rparr>, Inr action_id)
            else (cl2, Inl Socket_error)))"

text \<open>
  \<open>AsteriskAMIClient.originate_call\<close>. The loop over \<open>variables\<close> assigns the one key
  \<open>Variable\<close> each time, so the last variable is the one sent.
\<close>

definition AMI_originate_call ::
  "AsteriskAMIClient \<Rightarrow> int \<Rightarrow> bool \<Rightarrow> string \<Rightarrow> string \<Rightarrow> string \<Rightarrow> int \<Rightarrow> string option
     \<Rightarrow> message \<Rightarrow> handler option \<Rightarrow> AsteriskAMIClient \<times> (ami_exception + string)" where
  "AMI_originate_call cl clock send_ok channel context extension priority caller_id variables callback =
     (let p0 = [(''Channel'', channel), (''Context'', context), (''Exten'', extension),
                (''Priority'', str_int priority)];
          p1 = (case caller_id of
                  Some s \<Rightarrow> (if s \<noteq> [] then dict_set p0 ''CallerID'' s else p0)
                | None \<Rightarrow> p0);
          p2 = fold (\<lambda>(k, v) p. dict_set p ''Variable'' (k @ ''='' @ v)) variables p1
      in send_action cl clock send_ok ''Originate'' p2 callback)"

text \<open>
  \<open>_handle_message\<close>. The result lists the handler invocations in order, each with
  the message it received; an event handler that raises is logged and the loop
  goes on, so every subscriber of the event is invoked.
\<close>

datatype delivery = To_subscriber handler message | To_waiter handler message

definition handle_message ::
  "AsteriskAMIClient \<Rightarrow> message \<Rightarrow> AsteriskAMIClient \<times> delivery list" where
  "handle_message cl m =
     (case dict_get m ''Event'' of
        Some ev \<Rightarrow>
          (case dict_get (event_handlers cl) ev of
             Some hs \<Rightarrow> (cl, map (\<lambda>h. To_subscriber h m) hs)
           | None \<Rightarrow> (cl, []))
      | None \<Rightarrow>
          (case dict_get m ''ActionID'' of
             Some action_id \<Rightarrow>
               (case dict_get (response_handlers cl) action_id of
                  Some h \<Rightarrow>
                    (cl\<lparr>response_handlers := dict_del (response_handlers cl) action_id\<rparr>,
                     [To_waiter h m])
                | None \<Rightarrow> (cl, []))
           | None \<Rightarrow> (cl, [])))"

section \<open>Telephony service (\<open>SipService\<close>)\<close>

record CallInfo =
  info_channel :: string
  info_phone_number :: string
  info_agent_channel :: string
  info_action_id :: string
  info_started_at :: datetime

text \<open>
  \<open>notifications\<close> is the log of \<open>_notify_event_callbacks\<close>: one entry (event type,
  call id, AMI message) for each broadcast to the registered callbacks.
\<close>

record SipService =
  ami_clients :: "(int, AsteriskAMIClient) dict"
  active_calls :: "(int, CallInfo) dict"
  notifications :: "(string \<times> int \<times> message) list"

definition get_active_configuration :: "Database \<Rightarrow> SipConfiguration option" where
  "get_active_configuration db = find config_is_active (sip_configurations db)"

text \<open>
  \<open>SipService.originate_call\<close>: false without an active configuration or without a
  client for it; an exception of the client (not authenticated, failed write) is
  caught and gives false, after the client has already counted the action id and
  registered the callback.
\<close>

definition Sip_originate_call ::
  "Database \<Rightarrow> SipService \<Rightarrow> datetime \<Rightarrow> int \<Rightarrow> bool \<Rightarrow> string \<Rightarrow> string \<Rightarrow> int
     \<Rightarrow> SipService \<times> bool" where
  "Sip_originate_call db sip now clock send_ok phone_number agent_channel cid =
     (case get_active_configuration db of
        None \<Rightarrow> (sip, False)
      | Some active_config \<Rightarrow>
          (case dict_get (ami_clients sip) (config_id active_config) of
             None \<Rightarrow> (sip, False)
           | Some ami_client \<Rightarrow>
               (let channel = ''SIP/'' @ config_username active_config @ ''/'' @ phone_number;
                    variables = [(''CALL_ID'', str_int cid), (''AGENT_CHANNEL'', agent_channel),
                                 (''PHONE_NUMBER'', phone_number)];
                    (cl, r) = AMI_originate_call ami_client clock send_ok channel ''default''
                                phone_number 1 (Some (''<'' @ phone_number @ ''>'')) variables
                                (Some (Handle_originate_response cid));
                    sip1 = sip\<lparr>ami_clients := dict_set (ami_clients sip) (config_id active_config) cl\<rparr>
                in case r of
                     Inl e \<Rightarrow> (sip1, False)
                   | Inr action_id \<Rightarrow>
                       (sip1\<lparr>active_calls := dict_set (active_calls sip1) cid
                                \<lparr>info_channel = channel, info_phone_number = phone_number,
                                 info_agent_channel = agent_channel, info_action_id = action_id,
                                 info_started_at = now\<rparr>\<rparr>,
                        True))))"

section \<open>Dialer service (\<open>DialerService\<close>)\<close>

text \<open>
  The \<open>float\<close> fields and quantities of the program are exact rationals here.
  Where the program divides by a float that is zero, both raise; elsewhere a
  binary float can round a quotient just below a whole number that the exact
  quotient reaches, and \<open>int\<close> then gives one less than the rational does.
\<close>

record DialerStats =
  total_calls :: int
  answered_calls :: int
  busy_calls :: int
  no_answer_calls :: int
  failed_calls :: int
  average_call_duration :: rat
  answer_rate :: rat
  agent_utilization :: rat

record DialerService =
  agent_statuses :: registry
  dialer_stats :: "(int, DialerStats) dict"

text \<open>
  The three module-level objects the dialer works on: the database session, the
  global \<open>dialer_service\<close> and the global \<open>sip_service\<close>.
\<close>

record System =
  db :: Database
  dialer :: DialerService
  sip :: SipService

text \<open>The row object returned by \<open>query.get\<close> is the first one with the key; an
  assignment to one of its attributes followed by \<open>commit\<close> rewrites that row.\<close>

fun update_first :: "('a \<Rightarrow> bool) \<Rightarrow> ('a \<Rightarrow> 'a) \<Rightarrow> 'a list \<Rightarrow> 'a list" where
  "update_first P f [] = []"
| "update_first P f (x # xs) = (if P x then f x # xs else x # update_first P f xs)"

text \<open>The key \<open>flush\<close> gives a new \<open>Call\<close>: one more than the greatest key, at least 1.\<close>

definition next_call_id :: "Database \<Rightarrow> int" where
  "next_call_id d = fold max (map call_id (calls d)) 0 + 1"

definition initiate_call ::
  "System \<Rightarrow> datetime \<Rightarrow> int \<Rightarrow> bool \<Rightarrow> int \<Rightarrow> int \<Rightarrow> int \<Rightarrow> System \<times> int option" where
  "initiate_call sys now clock send_ok campaign lead agent =
     (case get_lead (db sys) lead of
        None \<Rightarrow> (sys, None)
      | Some l \<Rightarrow>
          (let cid = next_call_id (db sys);
               call = \<lparr>call_id = cid, call_lead_id = lead, call_campaign_id = campaign,
                       call_agent_id = Some agent, call_phone_number = lead_phone_number l,
                       call_direction = ''outbound'', call_status = ''initiated'',
                       call_started_at = Some now, call_answered_at = None,
                       call_ended_at = None, call_duration_seconds = None\<rparr>;
               db1 = (db sys)\<lparr>calls := calls (db sys) @ [call]\<rparr>;
               reg1 = update_agent_status (agent_statuses (dialer sys)) now agent ''on_call'' (Some cid);
               (sip1, ok) = Sip_originate_call db1 (sip sys) now clock send_ok
                              (lead_phone_number l) (''Agent/'' @ str_int agent) cid
           in if ok then
                (let db2 = db1\<lparr>leads := update_first (\<lambda>x. lead_id x = lead)
                                           (\<lambda>x. x\<lparr>lead_last_contacted := Some now\<rparr>) (leads db1)\<rparr>;
                     stats = (case dict_get (dialer_stats (dialer sys)) campaign of
                                Some st \<Rightarrow> dict_set (dialer_stats (dialer sys)) campaign
                                            (st\<lparr>total_calls := total_calls st + 1\<rparr>)
                              | None \<Rightarrow> dialer_stats (dialer sys))
                 in (\<lparr>db = db2, dialer = \<lparr>agent_statuses = reg1, dialer_stats = stats\<rparr>, sip = sip1\<rparr>,
                     Some cid))
              else
                (let db2 = db1\<lparr>calls := update_first (\<lambda>c. call_id c = cid)
                                           (\<lambda>c. c\<lparr>call_status := ''failed''\<rparr>) (calls db1)\<rparr>;
                     reg2 = update_agent_status reg1 now agent ''available'' None
                 in (\<lparr>db = db2,
                      dialer = \<lparr>agent_statuses = reg2, dialer_stats = dialer_stats (dialer sys)\<rparr>,
                      sip = sip1\<rparr>,
                     None))))"

section \<open>Hangup event (\<open>SipService._handle_hangup\<close>)\<close>

text \<open>\<open>Call.calculate_duration\<close>: set only when both timestamps are present.\<close>

definition calculate_duration :: "Call \<Rightarrow> Call" where
  "calculate_duration c =
     (case (call_started_at c, call_ended_at c) of
        (Some s, Some e) \<Rightarrow> c\<lparr>call_duration_seconds := Some (whole_seconds (e - s))\<rparr>
      | _ \<Rightarrow> c)"

text \<open>\<open>CallEvent.set_event_data\<close> stores \<open>None\<close> for an empty dict.\<close>

definition set_event_data :: "message \<Rightarrow> message option" where
  "set_event_data m = (if m = [] then None else Some m)"

text \<open>
  The loop over \<open>active_calls.items()\<close> stops at the first entry on the channel of the
  event, whether or not its \<open>Call\<close> row exists. The dialer service is not referenced.
\<close>

definition handle_hangup :: "System \<Rightarrow> datetime \<Rightarrow> message \<Rightarrow> System" where
  "handle_hangup sys now event =
     (case dict_get event ''Channel'' of
        None \<Rightarrow> sys
      | Some ch \<Rightarrow>
          (if ch = [] then sys
           else
             (case find (\<lambda>(cid, call_info). info_channel call_info = ch) (active_calls (sip sys)) of
                None \<Rightarrow> sys
              | Some (cid, call_info) \<Rightarrow>
                  (case get_call (db sys) cid of
                     None \<Rightarrow> sys
                   | Some call \<Rightarrow>
                       sys\<lparr>db := (db sys)
                              \<lparr>calls := update_first (\<lambda>c. call_id c = cid)
                                   (\<lambda>c. calculate_duration
                                          (c\<lparr>call_status := ''completed'', call_ended_at := Some now\<rparr>))
                                   (calls (db sys)),
                               call_events := call_events (db sys) @
                                   [\<lparr>event_call_id = cid, event_type = ''hangup'',
                                     event_data = set_event_data event,
                                     event_timestamp = Some now\<rparr>]\<rparr>,
                           sip := (sip sys)
                              \<lparr>active_calls := dict_del (active_calls (sip sys)) cid,
                               notifications := notifications (sip sys) @
                                   [(''call_ended'', cid, event)]\<rparr>\<rparr>))))"

section \<open>Agent status route (\<open>update_agent_status\<close> of \<open>dialer.py\<close>)\<close>

datatype http_response = Ok_200 | Error_response int string

text \<open>
  The handler of \<open>PUT /dialer/agent/status\<close>; \<open>body_status\<close> is \<open>data.get('status')\<close>
  of the JSON body (\<open>None\<close> also for a missing body).
\<close>

definition route_update_agent_status ::
  "DialerService \<Rightarrow> datetime \<Rightarrow> int \<Rightarrow> string option \<Rightarrow> DialerService \<times> http_response" where
  "route_update_agent_status ds now current_user_id body_status =
     (case body_status of
        None \<Rightarrow> (ds, Error_response 400 ''MISSING_DATA'')
      | Some s \<Rightarrow>
          (if s = [] then (ds, Error_response 400 ''MISSING_DATA'')
           else if s \<notin> set [''available'', ''busy'', ''offline'']
             then (ds, Error_response 400 ''INVALID_STATUS'')
           else (ds\<lparr>agent_statuses := update_agent_status (agent_statuses ds) now current_user_id s None\<rparr>,
                 Ok_200)))"

section \<open>Predictive pacing (\<open>PredictiveDialer\<close>)\<close>

record HistoryEntry =
  outcome :: string
  duration :: int
  timestamp :: "datetime option"

text \<open>\<open>int(x)\<close> of a number: truncation towards zero.\<close>

definition py_int :: "rat \<Rightarrow> int" where
  "py_int x = (if 0 \<le> x then \<lfloor>x\<rfloor> else \<lceil>x\<rceil>)"

text \<open>\<open>_predict_agents_becoming_free\<close>: one count per registry entry that passes the tests.\<close>

definition becoming_free :: "Database \<Rightarrow> datetime \<Rightarrow> rat \<Rightarrow> AgentStatus \<Rightarrow> bool" where
  "becoming_free d current_time avg_call_duration st =
     (status st = ''on_call'' \<and> truthy_int (current_call_id st) \<and>
      (case current_call_id st of
         None \<Rightarrow> False
       | Some cid \<Rightarrow>
           (case get_call d cid of
              None \<Rightarrow> False
            | Some call \<Rightarrow>
                (case call_started_at call of
                   None \<Rightarrow> False
                 | Some t \<Rightarrow>
                     of_int (current_time - t) / 1000000 \<ge> avg_call_duration * (8 / 10)))))"

definition predict_agents_becoming_free :: "Database \<Rightarrow> registry \<Rightarrow> datetime \<Rightarrow> rat \<Rightarrow> int" where
  "predict_agents_becoming_free d reg current_time avg_call_duration =
     int (length (filter (\<lambda>(a, st). becoming_free d current_time avg_call_duration st) reg))"

text \<open>
  \<open>_calculate_calls_needed\<close>. The division \<open>total_agents * predictive_ratio / answer_rate\<close>
  raises \<open>ZeroDivisionError\<close> when \<open>answer_rate\<close> is zero. The local variables
  \<open>answer_rate\<close> and \<open>answered_calls\<close> are \<open>rate\<close> and \<open>answered\<close> here, the
  statistics record having fields of those names.
\<close>

definition calculate_calls_needed ::
  "Database \<Rightarrow> registry \<Rightarrow> datetime \<Rightarrow> HistoryEntry list \<Rightarrow> int list \<Rightarrow> rat \<Rightarrow> py_error + int" where
  "calculate_calls_needed d reg now call_history available_agents predictive_ratio =
     (if available_agents = [] then Inr 0
      else
        (let rate = (if call_history \<noteq> []
                     then of_nat (length (filter (\<lambda>c. outcome c = ''answered'') call_history))
                          / of_nat (length call_history)
                     else 3 / 10);
             answered = filter (\<lambda>c. outcome c = ''answered'' \<and> duration c > 0) call_history;
             avg_call_duration = (if answered \<noteq> []
                                  then of_int (sum_list (map duration answered)) / of_nat (length answered)
                                  else 180);
             agents_becoming_free = predict_agents_becoming_free d reg now avg_call_duration;
             total_agents = int (length available_agents) + agents_becoming_free
         in if rate = 0 then Inl ZeroDivisionError
            else
              (let calls_needed = py_int (of_int total_agents * predictive_ratio / rate);
                   max_calls = min (int (length available_agents) * 3) 10
               in Inr (max 0 (min calls_needed max_calls)))))"

section \<open>Sequences of registry operations\<close>

text \<open>
  The three operations that write \<open>agent_statuses\<close>, with the arguments and clock
  readings of each call, and the state after a sequence of them.
\<close>

datatype operation =
    Op_update_agent_status datetime int string "int option"
  | Op_get_available_agents int
  | Op_initiate_call datetime int bool int int int

fun step :: "System \<Rightarrow> operation \<Rightarrow> System" where
  "step sys (Op_update_agent_status now a s c) =
     sys\<lparr>dialer := (dialer sys)
            \<lparr>agent_statuses := update_agent_status (agent_statuses (dialer sys)) now a s c\<rparr>\<rparr>"
| "step sys (Op_get_available_agents c) =
     sys\<lparr>dialer := (dialer sys)
            \<lparr>agent_statuses := fst (get_available_agents (db sys) (agent_statuses (dialer sys)) c)\<rparr>\<rparr>"
| "step sys (Op_initiate_call now clock send_ok c l a) =
     fst (initiate_call sys now clock send_ok c l a)"

fun run :: "System \<Rightarrow> operation list \<Rightarrow> System" where
  "run sys [] = sys"
| "run sys (op # ops) = run (step sys op) ops"

text \<open>\<open>DialerService.__init__\<close> leaves the registry and the statistics empty.\<close>

definition initial_system :: "Database \<Rightarrow> SipService \<Rightarrow> System" where
  "initial_system d s = \<lparr>db = d, dialer = \<lparr>agent_statuses = [], dialer_stats = []\<rparr>, sip = s\<rparr>"

text \<open>
  An update as the HTTP route issues it: one of the three statuses it accepts and
  no call id.
\<close>

fun facade_operation :: "operation \<Rightarrow> bool" where
  "facade_operation (Op_update_agent_status now a s c) =
     (s \<in> set [''available'', ''busy'', ''offline''] \<and> c = None)"
| "facade_operation (Op_get_available_agents c) = True"
| "facade_operation (Op_initiate_call now clock send_ok c l a) = True"

text \<open>What the registry keeps true under such operations.\<close>

definition entry_consistent :: "AgentStatus \<Rightarrow> bool" where
  "entry_consistent e =
     ((status e = ''on_call'' \<longrightarrow> truthy_int (current_call_id e)) \<and>
      (status e = ''available'' \<longrightarrow> current_call_id e = None))"

definition registry_consistent :: "registry \<Rightarrow> bool" where
  "registry_consistent reg = list_all (\<lambda>(a, e). entry_consistent e) reg"

section \<open>Properties as the specification words them\<close>

text \<open>Section 4.2 and 8: the call id is non-null exactly for the status \<open>on_call\<close>.\<close>

definition spec_call_id_iff_on_call :: "registry \<Rightarrow> bool" where
  "spec_call_id_iff_on_call reg =
     list_all (\<lambda>(a, e). (current_call_id e \<noteq> None) = (status e = ''on_call'')) reg"





text \<open>The filters of section 4.3, steps 2 and 3, on one lead.\<close>

definition within_attempt_cap :: "Database \<Rightarrow> Campaign \<Rightarrow> Lead \<Rightarrow> bool" where
  "within_attempt_cap d campaign l =
     (int (length (calls_of_lead d (lead_id l))) < campaign_max_attempts campaign)"

definition cooldown_elapsed :: "Database \<Rightarrow> Campaign \<Rightarrow> datetime \<Rightarrow> Lead \<Rightarrow> bool" where
  "cooldown_elapsed d campaign now l =
     (case latest_call (calls_of_lead d (lead_id l)) of
        None \<Rightarrow> True
      | Some k \<Rightarrow>
          (case call_started_at k of
             None \<Rightarrow> False
           | Some t \<Rightarrow> timedelta_minutes (campaign_retry_delay_minutes campaign) \<le> now - t))"

text \<open>The same of every earlier call with a start time, not only of the latest.\<close>

definition all_calls_cooled_down :: "Database \<Rightarrow> Campaign \<Rightarrow> datetime \<Rightarrow> Lead \<Rightarrow> bool" where
  "all_calls_cooled_down d campaign now l =
     list_all (\<lambda>c. case call_started_at c of
                     None \<Rightarrow> True
                   | Some t \<Rightarrow> timedelta_minutes (campaign_retry_delay_minutes campaign) \<le> now - t)
              (calls_of_lead d (lead_id l))"

definition eligible :: "Database \<Rightarrow> Campaign \<Rightarrow> datetime \<Rightarrow> Lead \<Rightarrow> bool" where
  "eligible d campaign now l = (within_attempt_cap d campaign l \<and> cooldown_elapsed d campaign now l)"

text \<open>
  Section 4.5, step 4: the submission of the \<open>Originate\<close> action fails. In the
  program that is: no active configuration, no client for it, a client that is not
  authenticated, or a failed write to the socket.
\<close>

definition originate_fails :: "Database \<Rightarrow> SipService \<Rightarrow> bool \<Rightarrow> bool" where
  "originate_fails d s send_ok =
     (case get_active_configuration d of
        None \<Rightarrow> True
      | Some active_config \<Rightarrow>
          (case dict_get (ami_clients s) (config_id active_config) of
             None \<Rightarrow> True
           | Some ami_client \<Rightarrow> \<not> authenticated ami_client \<or> \<not> send_ok))"

section \<open>Concrete scenarios\<close>

text \<open>
  One campaign with two assigned agents and one active SIP configuration; the
  leads and calls vary with the scenario.
\<close>

definition example_campaign :: Campaign where
  "example_campaign =
     \<lparr>campaign_id = 1, campaign_dialer_mode = ''turbo'', campaign_max_attempts = 3,
      campaign_retry_delay_minutes = 60\<rparr>"

definition example_lead :: "int \<Rightarrow> string \<Rightarrow> int \<Rightarrow> Lead" where
  "example_lead i phone prio =
     \<lparr>lead_id = i, lead_campaign_id = 1, lead_phone_number = phone, lead_status = ''new'',
      lead_priority = prio, lead_last_contacted = None, lead_next_contact_date = None\<rparr>"

definition example_database :: "Lead list \<Rightarrow> Call list \<Rightarrow> Database" where
  "example_database ls cs =
     \<lparr>campaigns = [example_campaign],
      assignments = [\<lparr>assignment_campaign_id = 1, assignment_user_id = 1\<rparr>,
                     \<lparr>assignment_campaign_id = 1, assignment_user_id = 2\<rparr>],
      leads = ls, calls = cs, call_events = [],
      sip_configurations = [\<lparr>config_id = 1, config_username = ''trunk'', config_is_active = True\<rparr>]\<rparr>"

definition example_client :: AsteriskAMIClient where
  "example_client =
     \<lparr>authenticated = True, action_id_counter = 0,
      event_handlers = [(''Hangup'', [Handle_hangup])],
      response_handlers = [], wire = []\<rparr>"

definition example_sip :: SipService where
  "example_sip = \<lparr>ami_clients = [(1, example_client)], active_calls = [], notifications = []\<rparr>"


text \<open>An agent on the call with the given id.\<close>

definition example_busy_agent :: "int \<Rightarrow> int \<Rightarrow> AgentStatus" where
  "example_busy_agent a c =
     \<lparr>agent_id = a, status = ''on_call'', current_call_id = Some c, last_call_end = None,
      calls_today = 0, talk_time_today = 0\<rparr>"

text \<open>A call to lead 1 by agent 1, started at the given time, in the given status.\<close>

definition example_call :: "int \<Rightarrow> string \<Rightarrow> datetime \<Rightarrow> Call" where
  "example_call i st t =
     \<lparr>call_id = i, call_lead_id = 1, call_campaign_id = 1, call_agent_id = Some 1,
      call_phone_number = ''5550001'', call_direction = ''outbound'', call_status = st,
      call_started_at = Some t, call_answered_at = None, call_ended_at = None,
      call_duration_seconds = None\<rparr>"

text \<open>
  Call 1 in flight on its channel, owned by agent 1, as a successful
  \<open>initiate_call\<close> leaves it.
\<close>

definition example_call_info :: CallInfo where
  "example_call_info =
     \<lparr>info_channel = ''SIP/trunk/5550001'', info_phone_number = ''5550001'',
      info_agent_channel = ''Agent/1'', info_action_id = ''action_1_17'',
      info_started_at = 1000000\<rparr>"

definition example_in_flight :: System where
  "example_in_flight =
     \<lparr>db = example_database [example_lead 1 ''5550001'' 1] [example_call 1 ''initiated'' 1000000],
      dialer = \<lparr>agent_statuses = [(1, example_busy_agent 1 1)], dialer_stats = []\<rparr>,
      sip = example_sip\<lparr>active_calls := [(1, example_call_info)]\<rparr>\<rparr>"

definition example_hangup :: message where
  "example_hangup = [(''Event'', ''Hangup''), (''Channel'', ''SIP/trunk/5550001'')]"

text \<open>
  A client with the five subscriptions of \<open>initialize_ami_connection\<close> and the
  response callback of one pending \<open>Originate\<close>; and the event-style response to
  that action, carrying both keys.
\<close>

definition example_waiting_client :: AsteriskAMIClient where
  "example_waiting_client =
     \<lparr>authenticated = True, action_id_counter = 1,
      event_handlers = [(''Newchannel'', [Handle_new_channel]), (''Hangup'', [Handle_hangup]),
                        (''Bridge'', [Handle_bridge]), (''DialBegin'', [Handle_dial_begin]),
                        (''DialEnd'', [Handle_dial_end])],
      response_handlers = [(''action_1_17'', Handle_originate_response 1)],
      wire = []\<rparr>"

definition example_event_style_response :: message where
  "example_event_style_response =
     [(''Event'', ''OriginateResponse''), (''ActionID'', ''action_1_17''),
      (''Response'', ''Failure''), (''Reason'', ''5'')]"

definition example_hangup_with_action_id :: message where
  "example_hangup_with_action_id =
     [(''Event'', ''Hangup''), (''ActionID'', ''action_1_17''),
      (''Channel'', ''SIP/trunk/5550001'')]"

text \<open>A recent history in which no call was answered.\<close>

definition example_unanswered_history :: "HistoryEntry list" where
  "example_unanswered_history =
     [\<lparr>outcome = ''not_answered'', duration = 0, timestamp = Some 1000000\<rparr>,
      \<lparr>outcome = ''not_answered'', duration = 0, timestamp = Some 2000000\<rparr>]"

text \<open>Scenario S2: one answered call in four, two available agents.\<close>

definition example_quarter_history :: "HistoryEntry list" where
  "example_quarter_history =
     [\<lparr>outcome = ''answered'', duration = 30, timestamp = Some 1000000\<rparr>,
      \<lparr>outcome = ''not_answered'', duration = 0, timestamp = Some 2000000\<rparr>,
      \<lparr>outcome = ''not_answered'', duration = 0, timestamp = Some 3000000\<rparr>,
      \<lparr>outcome = ''not_answered'', duration = 0, timestamp = Some 4000000\<rparr>]"

section \<open>Dictionary lemmas\<close>

lemma dict_get_set: "dict_get (dict_set d k v) k' = (if k' = k then Some v else dict_get d k')"
  by (induction d) (auto simp: dict_get_def)

section \<open>Agent availability\<close>







section \<open>AMI message dispatch\<close>

text \<open>
  C9, as the code has it. A message with an \<open>Event\<close> key is delivered to the
  subscribers of that event type, in registration order, and to nobody else,
  whether or not it also carries the \<open>ActionID\<close> of a pending response callback:
  the client, and with it the table of pending callbacks, is left as it was.
\<close>

theorem handle_message_event_key_wins:
  "dict_get m ''Event'' = Some ev \<Longrightarrow>
   handle_message cl m =
     (cl, map (\<lambda>h. To_subscriber h m)
              (case dict_get (event_handlers cl) ev of None \<Rightarrow> [] | Some hs \<Rightarrow> hs))"
  by (simp add: handle_message_def split: option.splits)

theorem handle_message_event_key_wins_witness:
  "dict_get example_hangup_with_action_id ''Event'' = Some ''Hangup''
   \<and> dict_get example_hangup_with_action_id ''ActionID'' = Some ''action_1_17''
   \<and> dict_get (response_handlers example_waiting_client) ''action_1_17''
        = Some (Handle_originate_response 1)
   \<and> handle_message example_waiting_client example_hangup_with_action_id =
        (example_waiting_client, [To_subscriber Handle_hangup example_hangup_with_action_id])"
proof -
  have ev: "dict_get example_hangup_with_action_id ''Event'' = Some ''Hangup''"
    by code_simp
  have aid: "dict_get example_hangup_with_action_id ''ActionID'' = Some ''action_1_17''"
    by code_simp
  have waiter: "dict_get (response_handlers example_waiting_client) ''action_1_17''
        = Some (Handle_originate_response 1)"
    by code_simp
  have subs: "dict_get (event_handlers example_waiting_client) ''Hangup'' = Some [Handle_hangup]"
    by code_simp
  show ?thesis
    using ev aid waiter subs handle_message_event_key_wins [OF ev, of example_waiting_client]
    by simp
qed

text \<open>
  C9, as the specification states it, fails: the event-style response to a pending
  \<open>Originate\<close> carries both keys and the \<open>ActionID\<close> of a registered callback, yet
  no handler is invoked and the callback stays pending.
\<close>

theorem handle_message_waiter_not_completed:
  "dict_get example_event_style_response ''Event'' = Some ''OriginateResponse''
   \<and> dict_get example_event_style_response ''ActionID'' = Some ''action_1_17''
   \<and> dict_get (response_handlers example_waiting_client) ''action_1_17''
        = Some (Handle_originate_response 1)
   \<and> handle_message example_waiting_client example_event_style_response
        = (example_waiting_client, [])"
  by code_simp

section \<open>Agent status route\<close>

text \<open>
  C3, as the code has it. For an agent whose status is \<open>on_call\<close>, the route
  accepts the status \<open>available\<close> with response 200: the entry becomes
  \<open>available\<close>, its call id is cleared and \<open>last_call_end\<close> is the time of the
  request.
\<close>

theorem route_update_agent_status_frees_on_call_agent:
  "dict_get (agent_statuses ds) a = Some e \<Longrightarrow> status e = ''on_call'' \<Longrightarrow>
   route_update_agent_status ds now a (Some ''available'') =
     (ds\<lparr>agent_statuses :=
           dict_set (agent_statuses ds) a
             (e\<lparr>status := ''available'', current_call_id := None, last_call_end := Some now\<rparr>)\<rparr>,
      Ok_200)"
  by (simp add: route_update_agent_status_def update_agent_status_def truthy_int_def)

theorem route_update_agent_status_frees_on_call_agent_witness:
  "dict_get (agent_statuses (dialer example_in_flight)) 1 = Some (example_busy_agent 1 1)
   \<and> status (example_busy_agent 1 1) = ''on_call''
   \<and> route_update_agent_status (dialer example_in_flight) 5000000 1 (Some ''available'') =
       (\<lparr>agent_statuses =
           [(1, \<lparr>agent_id = 1, status = ''available'', current_call_id = None,
                 last_call_end = Some 5000000, calls_today = 0, talk_time_today = 0\<rparr>)],
         dialer_stats = []\<rparr>, Ok_200)"
proof -
  have tracked: "dict_get (agent_statuses (dialer example_in_flight)) 1 = Some (example_busy_agent 1 1)"
    by code_simp
  have on_call: "status (example_busy_agent 1 1) = ''on_call''"
    by code_simp
  show ?thesis
    using tracked on_call
      route_update_agent_status_frees_on_call_agent [OF tracked on_call, of 5000000]
    by (simp add: example_in_flight_def example_busy_agent_def)
qed

text \<open>
  C3, as the specification states it, fails: agent 1 is on call 1, the request is
  answered with 200 and not with an error, and the entry of the agent has changed.
\<close>

theorem route_update_agent_status_no_agent_busy:
  "dict_get (agent_statuses (dialer example_in_flight)) 1 = Some (example_busy_agent 1 1)
   \<and> status (example_busy_agent 1 1) = ''on_call''
   \<and> snd (route_update_agent_status (dialer example_in_flight) 5000000 1 (Some ''available''))
       = Ok_200
   \<and> dict_get (agent_statuses
        (fst (route_update_agent_status (dialer example_in_flight) 5000000 1 (Some ''available'')))) 1
       = Some \<lparr>agent_id = 1, status = ''available'', current_call_id = None,
               last_call_end = Some 5000000, calls_today = 0, talk_time_today = 0\<rparr>"
  by code_simp

section \<open>Predictive pacing\<close>

text \<open>Whenever a number of calls is returned, it lies within the cap.\<close>

lemma calculate_calls_needed_range:
  "calculate_calls_needed d reg now h av r = Inr n \<Longrightarrow>
   0 \<le> n \<and> n \<le> min (3 * int (length av)) 10"
  by (auto simp: calculate_calls_needed_def Let_def split: if_splits)

text \<open>A non-empty history without an answered call makes the computation raise.\<close>

lemma calculate_calls_needed_unanswered:
  "av \<noteq> [] \<Longrightarrow> h \<noteq> [] \<Longrightarrow> list_all (\<lambda>c. outcome c \<noteq> ''answered'') h \<Longrightarrow>
   calculate_calls_needed d reg now h av r = Inl ZeroDivisionError"
proof -
  assume a: "av \<noteq> []" "h \<noteq> []" "list_all (\<lambda>c. outcome c \<noteq> ''answered'') h"
  have "filter (\<lambda>c. outcome c = ''answered'') h = []"
    using a(3) by (induction h) auto
  then show ?thesis
    using a(1,2) by (simp add: calculate_calls_needed_def Let_def)
qed

text \<open>Scenario S2 of the specification: two agents, answer rate 0.25, ratio 1.2.\<close>

lemma calculate_calls_needed_oversubscription:
  "calculate_calls_needed (example_database [] []) [] 5000000 example_quarter_history [1, 2]
     (12 / 10) = Inr 6"
  by code_simp

text \<open>
  C1. The code does not meet the claim when the answer rate is zero: with one
  available agent, ratio 1.2 and a history of two unanswered calls,
  \<open>_calculate_calls_needed\<close> raises \<open>ZeroDivisionError\<close> instead of returning a
  number between 0 and \<open>min(3, 10)\<close>.
\<close>

theorem calculate_calls_needed_division_by_zero:
  "calculate_calls_needed (example_database [] []) [] 5000000 example_unanswered_history [1]
     (12 / 10) = Inl ZeroDivisionError"
  by code_simp

section \<open>Lead selection\<close>



lemma latest_call_empty: "(latest_call cs = None) = (cs = [])"
  by (simp add: latest_call_def split: list.splits)

lemma latest_from_greatest:
  "call_started_at (latest_from b cs) = Some t \<Longrightarrow>
   \<forall>k \<in> set (b # cs). \<forall>u. call_started_at k = Some u \<longrightarrow> u \<le> t"
proof (induction cs arbitrary: b)
  case Nil
  then show ?case by simp
next
  case (Cons c cs)
  let ?b = "if started_later c b then c else b"
  have res: "call_started_at (latest_from ?b cs) = Some t"
    using Cons.prems by simp
  have ih: "\<forall>k \<in> set (?b # cs). \<forall>u. call_started_at k = Some u \<longrightarrow> u \<le> t"
    using Cons.IH [OF res] .
  have b: "\<forall>u. call_started_at b = Some u \<longrightarrow> u \<le> t"
    using ih by (cases "started_later c b")
      (fastforce simp: started_later_def split: option.splits)+
  have c: "\<forall>u. call_started_at c = Some u \<longrightarrow> u \<le> t"
    using ih by (cases "started_later c b")
      (fastforce simp: started_later_def split: option.splits)+
  show ?case using ih b c by auto
qed

lemma latest_call_greatest:
  "latest_call cs = Some l \<Longrightarrow> call_started_at l = Some t \<Longrightarrow> k \<in> set cs \<Longrightarrow>
   call_started_at k = Some u \<Longrightarrow> u \<le> t"
proof (cases cs)
  case Nil
  assume "k \<in> set cs"
  with Nil show ?thesis by simp
next
  case (Cons c rest)
  assume "latest_call cs = Some l" "call_started_at l = Some t" "k \<in> set cs"
    "call_started_at k = Some u"
  then show ?thesis
    using Cons latest_from_greatest [of c rest t] by (auto simp: latest_call_def)
qed

lemma valid_leads_loop_step:
  "valid_leads_loop d campaign now (l # ls) acc = Inr vs \<Longrightarrow>
   valid_leads_loop d campaign now ls (if eligible d campaign now l then acc @ [l] else acc) = Inr vs"
proof (cases "calls_of_lead d (lead_id l)")
  case Nil
  assume "valid_leads_loop d campaign now (l # ls) acc = Inr vs"
  then show ?thesis
    using Nil
    by (simp add: eligible_def within_attempt_cap_def cooldown_elapsed_def latest_call_def
             split: if_splits)
next
  case (Cons k ks)
  assume "valid_leads_loop d campaign now (l # ls) acc = Inr vs"
  then show ?thesis
    using Cons
    by (simp add: eligible_def within_attempt_cap_def cooldown_elapsed_def latest_call_def Let_def
             split: if_splits option.splits)
qed

lemma valid_leads_loop_filter:
  "valid_leads_loop d campaign now ls acc = Inr vs \<Longrightarrow>
   vs = acc @ filter (eligible d campaign now) ls"
proof (induction ls arbitrary: acc)
  case Nil
  then show ?case by simp
next
  case (Cons l ls)
  show ?case
    using Cons.IH [OF valid_leads_loop_step [OF Cons.prems]] by simp
qed





text \<open>
  C5, as the code has it. A lead returned by \<open>get_next_lead\<close> is a lead of the
  campaign with status \<open>new\<close>, \<open>callback\<close> or \<open>interested\<close>; its number of calls is
  below \<open>max_attempts\<close>; and if it has been called, the latest call, and with it
  every call with a start time, started at least \<open>retry_delay_minutes\<close> ago. Its
  phone is only required to be non-null, which the column guarantees.
\<close>

theorem get_next_lead_returns_eligible:
  assumes "get_next_lead d now c = Inr (Some l)"
    and "get_campaign d c = Some campaign"
  shows "l \<in> set (leads d) \<and> lead_campaign_id l = c
         \<and> lead_status l \<in> set [''new'', ''callback'', ''interested'']
         \<and> within_attempt_cap d campaign l
         \<and> cooldown_elapsed d campaign now l
         \<and> all_calls_cooled_down d campaign now l"
proof -
  obtain vs where vs: "valid_leads_loop d campaign now (candidate_leads d c) [] = Inr vs"
    and hd: "vs = l # tl vs"
    using assms by (auto simp: get_next_lead_def split: sum.splits list.splits)
  have "vs = filter (eligible d campaign now) (candidate_leads d c)"
    using valid_leads_loop_filter [OF vs] by simp
  then have mem: "l \<in> set (filter (eligible d campaign now) (candidate_leads d c))"
    using hd by (metis list.set_intros(1))
  then have cand: "l \<in> set (candidate_leads d c)" and el: "eligible d campaign now l"
    by simp_all
  have cool: "all_calls_cooled_down d campaign now l"
  proof -
    have "\<And>k u. k \<in> set (calls_of_lead d (lead_id l)) \<Longrightarrow> call_started_at k = Some u \<Longrightarrow>
            timedelta_minutes (campaign_retry_delay_minutes campaign) \<le> now - u"
    proof -
      fix k u
      assume k: "k \<in> set (calls_of_lead d (lead_id l))" and u: "call_started_at k = Some u"
      then obtain last where last: "latest_call (calls_of_lead d (lead_id l)) = Some last"
        using latest_call_empty [of "calls_of_lead d (lead_id l)"] by fastforce
      then obtain t where t: "call_started_at last = Some t"
        and d: "timedelta_minutes (campaign_retry_delay_minutes campaign) \<le> now - t"
        using el by (auto simp: eligible_def cooldown_elapsed_def split: option.splits)
      have "u \<le> t" using latest_call_greatest [OF last t k u] .
      then show "timedelta_minutes (campaign_retry_delay_minutes campaign) \<le> now - u"
        using d by simp
    qed
    then show ?thesis
      by (auto simp: all_calls_cooled_down_def list_all_iff split: option.splits)
  qed
  show ?thesis
    using cand el cool by (auto simp: candidate_leads_def eligible_def)
qed

theorem get_next_lead_returns_eligible_witness:
  "get_next_lead (example_database [example_lead 1 ''5550001'' 1] [example_call 1 ''failed'' 0])
      3660000000 1 = Inr (Some (example_lead 1 ''5550001'' 1))
   \<and> get_campaign (example_database [example_lead 1 ''5550001'' 1] [example_call 1 ''failed'' 0]) 1
       = Some example_campaign
   \<and> within_attempt_cap (example_database [example_lead 1 ''5550001'' 1] [example_call 1 ''failed'' 0])
       example_campaign (example_lead 1 ''5550001'' 1)
   \<and> cooldown_elapsed (example_database [example_lead 1 ''5550001'' 1] [example_call 1 ''failed'' 0])
       example_campaign 3660000000 (example_lead 1 ''5550001'' 1)
   \<and> all_calls_cooled_down (example_database [example_lead 1 ''5550001'' 1] [example_call 1 ''failed'' 0])
       example_campaign 3660000000 (example_lead 1 ''5550001'' 1)"
proof -
  let ?d = "example_database [example_lead 1 ''5550001'' 1] [example_call 1 ''failed'' 0]"
  have returned: "get_next_lead ?d 3660000000 1 = Inr (Some (example_lead 1 ''5550001'' 1))"
    by code_simp
  have campaign: "get_campaign ?d 1 = Some example_campaign"
    by code_simp
  show ?thesis
    using returned campaign get_next_lead_returns_eligible [OF returned campaign]
    by simp
qed

text \<open>
  C5, as the specification states it, fails: a lead whose phone is the empty
  string is returned.
\<close>

theorem get_next_lead_returns_empty_phone:
  "get_next_lead (example_database [example_lead 1 [] 1] []) 0 1
     = Inr (Some (example_lead 1 [] 1))
   \<and> lead_phone_number (example_lead 1 [] 1) = []"
  by code_simp

section \<open>Registry invariant\<close>

lemma list_all_dict_set:
  "list_all P d \<Longrightarrow> P (k, v) \<Longrightarrow> list_all P (dict_set d k v)"
  by (induction d) auto

lemma dict_get_mem: "dict_get d k = Some v \<Longrightarrow> (k, v) \<in> set d"
  by (simp add: dict_get_def map_of_SomeD)

lemma update_agent_status_consistent:
  assumes "registry_consistent reg"
    and "s \<in> set [''available'', ''busy'', ''offline''] \<and> c = None
         \<or> s = ''on_call'' \<and> truthy_int c"
  shows "registry_consistent (update_agent_status reg now a s c)"
proof -
  have old: "\<And>e. dict_get reg a = Some e \<Longrightarrow> entry_consistent e"
    using assms(1) dict_get_mem [of reg a]
    by (fastforce simp: registry_consistent_def list_all_iff)
  show ?thesis
    unfolding update_agent_status_def Let_def registry_consistent_def
  proof (rule list_all_dict_set)
    show "list_all (\<lambda>(a, e). entry_consistent e) reg"
      using assms(1) by (simp add: registry_consistent_def)
  next
    show "case (a, if truthy_int c
             then (case dict_get reg a of None \<Rightarrow> new_AgentStatus a s
                   | Some e \<Rightarrow> e\<lparr>status := s\<rparr>)\<lparr>current_call_id := c\<rparr>
             else if s = ''available''
               then (case dict_get reg a of None \<Rightarrow> new_AgentStatus a s
                     | Some e \<Rightarrow> e\<lparr>status := s\<rparr>)
                    \<lparr>current_call_id := None, last_call_end := Some now\<rparr>
               else (case dict_get reg a of None \<Rightarrow> new_AgentStatus a s
                     | Some e \<Rightarrow> e\<lparr>status := s\<rparr>)) of
          (a, e) \<Rightarrow> entry_consistent e"
      using assms(2) old
      by (cases "dict_get reg a")
         (auto simp: entry_consistent_def new_AgentStatus_def truthy_int_def)
  qed
qed

lemma available_loop_consistent:
  "registry_consistent reg \<Longrightarrow> registry_consistent (fst (available_loop as reg acc))"
proof (induction as arbitrary: reg acc)
  case Nil
  then show ?case by simp
next
  case (Cons a as)
  have fresh: "registry_consistent (dict_set reg a (new_AgentStatus a ''available''))"
    using Cons.prems unfolding registry_consistent_def
    by (intro list_all_dict_set) (simp_all add: entry_consistent_def new_AgentStatus_def)
  show ?case
    using Cons.IH [OF Cons.prems] Cons.IH [OF fresh]
    by (cases "dict_get reg a") simp_all
qed

lemma fold_max_lower: "(a::int) \<le> fold max xs a"
proof (induction xs arbitrary: a)
  case Nil
  show ?case by simp
next
  case (Cons x xs)
  have "max x a \<le> fold max xs (max x a)" by (rule Cons.IH)
  then show ?case by simp
qed

lemma fold_max_upper: "x \<in> set xs \<Longrightarrow> (x::int) \<le> fold max xs a"
proof (induction xs arbitrary: a)
  case Nil
  then show ?case by simp
next
  case (Cons y ys)
  show ?case
  proof (cases "x = y")
    case True
    have "max y a \<le> fold max ys (max y a)" by (rule fold_max_lower)
    then show ?thesis using True by simp
  next
    case False
    then have "x \<in> set ys" using Cons.prems by simp
    then show ?thesis using Cons.IH by simp
  qed
qed

lemma next_call_id_positive: "1 \<le> next_call_id d"
  using fold_max_lower [of 0 "map call_id (calls d)"] by (simp add: next_call_id_def)

lemma next_call_id_fresh: "c \<in> set (calls d) \<Longrightarrow> call_id c < next_call_id d"
  using fold_max_upper [of "call_id c" "map call_id (calls d)" 0] by (simp add: next_call_id_def)

lemma initiate_call_registry:
  "agent_statuses (dialer (fst (initiate_call sys now clock send_ok c l a))) =
     (case get_lead (db sys) l of
        None \<Rightarrow> agent_statuses (dialer sys)
      | Some x \<Rightarrow>
          (let reg1 = update_agent_status (agent_statuses (dialer sys)) now a ''on_call''
                        (Some (next_call_id (db sys)))
           in if snd (Sip_originate_call ((db sys)\<lparr>calls := calls (db sys) @
                        [\<lparr>call_id = next_call_id (db sys), call_lead_id = l, call_campaign_id = c,
                          call_agent_id = Some a, call_phone_number = lead_phone_number x,
                          call_direction = ''outbound'', call_status = ''initiated'',
                          call_started_at = Some now, call_answered_at = None,
                          call_ended_at = None, call_duration_seconds = None\<rparr>]\<rparr>)
                      (sip sys) now clock send_ok (lead_phone_number x)
                      (''Agent/'' @ str_int a) (next_call_id (db sys)))
              then reg1 else update_agent_status reg1 now a ''available'' None))"
  by (simp add: initiate_call_def Let_def split: option.splits prod.splits)

lemma initiate_call_consistent:
  assumes "registry_consistent (agent_statuses (dialer sys))"
  shows "registry_consistent (agent_statuses (dialer (fst (initiate_call sys now clock send_ok c l a))))"
proof -
  have truthy: "truthy_int (Some (next_call_id (db sys)))"
    using next_call_id_positive [of "db sys"] by (simp add: truthy_int_def)
  have r1: "registry_consistent
              (update_agent_status (agent_statuses (dialer sys)) now a ''on_call''
                 (Some (next_call_id (db sys))))"
    using truthy by (intro update_agent_status_consistent [OF assms]) simp
  have r2: "registry_consistent
              (update_agent_status
                 (update_agent_status (agent_statuses (dialer sys)) now a ''on_call''
                    (Some (next_call_id (db sys)))) now a ''available'' None)"
    by (rule update_agent_status_consistent [OF r1]) simp
  show ?thesis
    using assms r1 r2 by (simp add: initiate_call_registry Let_def split: option.splits)
qed

lemma step_consistent:
  assumes "registry_consistent (agent_statuses (dialer sys))" and "facade_operation op"
  shows "registry_consistent (agent_statuses (dialer (step sys op)))"
proof (cases op)
  case (Op_update_agent_status now a s c)
  then show ?thesis
    using assms update_agent_status_consistent [of "agent_statuses (dialer sys)" s c now a]
    by simp
next
  case (Op_get_available_agents c)
  then show ?thesis
    using assms(1) by (simp add: get_available_agents_def available_loop_consistent)
next
  case (Op_initiate_call now clock send_ok c l a)
  then show ?thesis
    using assms(1) by (simp add: initiate_call_consistent)
qed

lemma run_consistent:
  "registry_consistent (agent_statuses (dialer sys)) \<Longrightarrow> list_all facade_operation ops \<Longrightarrow>
   registry_consistent (agent_statuses (dialer (run sys ops)))"
proof (induction ops arbitrary: sys)
  case Nil
  then show ?case by simp
next
  case (Cons op ops)
  then show ?case using step_consistent by simp
qed

text \<open>
  C7, as the code has it. In every state reached from the empty registry by
  status updates as the route issues them (\<open>available\<close>, \<open>busy\<close> or \<open>offline\<close>,
  without call id), availability queries and \<open>initiate_call\<close>, an agent with
  status \<open>on_call\<close> has a call id and an agent with status \<open>available\<close> has none.
  An agent that is \<open>busy\<close> or \<open>offline\<close> may keep the id of its last call.
\<close>

theorem registry_consistent_reachable:
  "list_all facade_operation ops \<Longrightarrow>
   registry_consistent (agent_statuses (dialer (run (initial_system d s) ops)))"
  by (rule run_consistent) (simp_all add: initial_system_def registry_consistent_def)

theorem registry_consistent_reachable_witness:
  "list_all facade_operation
     [Op_get_available_agents 1, Op_initiate_call 1000000 17 False 1 1 1,
      Op_update_agent_status 2000000 2 ''offline'' None]
   \<and> registry_consistent
        (agent_statuses (dialer
           (run (initial_system (example_database [example_lead 1 ''5550001'' 1] []) example_sip)
              [Op_get_available_agents 1, Op_initiate_call 1000000 17 False 1 1 1,
               Op_update_agent_status 2000000 2 ''offline'' None])))
   \<and> map (\<lambda>(a, e). (a, status e, current_call_id e))
        (agent_statuses (dialer
           (run (initial_system (example_database [example_lead 1 ''5550001'' 1] []) example_sip)
              [Op_get_available_agents 1, Op_initiate_call 1000000 17 False 1 1 1,
               Op_update_agent_status 2000000 2 ''offline'' None])))
       = [(1, ''available'', None), (2, ''offline'', None)]"
proof -
  have ops: "list_all facade_operation
     [Op_get_available_agents 1, Op_initiate_call 1000000 17 False 1 1 1,
      Op_update_agent_status 2000000 2 ''offline'' None]"
    by simp
  have entries: "map (\<lambda>(a, e). (a, status e, current_call_id e))
        (agent_statuses (dialer
           (run (initial_system (example_database [example_lead 1 ''5550001'' 1] []) example_sip)
              [Op_get_available_agents 1, Op_initiate_call 1000000 17 False 1 1 1,
               Op_update_agent_status 2000000 2 ''offline'' None])))
       = [(1, ''available'', None), (2, ''offline'', None)]"
    by code_simp
  show ?thesis
    using ops entries
      registry_consistent_reachable
        [OF ops, of "example_database [example_lead 1 ''5550001'' 1] []" example_sip]
    by simp
qed

text \<open>
  C7, as the specification states it, fails: after a successful \<open>initiate_call\<close> for
  agent 1 and the agent's own update to \<open>busy\<close>, the agent is \<open>busy\<close> and still
  carries the id of call 1.
\<close>

theorem registry_busy_agent_keeps_call_id:
  "map (\<lambda>(a, e). (a, status e, current_call_id e))
     (agent_statuses (dialer
        (run (initial_system (example_database [example_lead 1 ''5550001'' 1] []) example_sip)
           [Op_initiate_call 1000000 17 True 1 1 1,
            Op_update_agent_status 2000000 1 ''busy'' None])))
     = [(1, ''busy'', Some 1)]
   \<and> \<not> spec_call_id_iff_on_call
        (agent_statuses (dialer
           (run (initial_system (example_database [example_lead 1 ''5550001'' 1] []) example_sip)
              [Op_initiate_call 1000000 17 True 1 1 1,
               Op_update_agent_status 2000000 1 ''busy'' None])))"
  by code_simp

section \<open>Call placement\<close>

lemma update_first_append_fresh:
  "\<forall>x \<in> set xs. \<not> P x \<Longrightarrow> P y \<Longrightarrow> update_first P f (xs @ [y]) = xs @ [f y]"
  by (induction xs) auto

lemma find_append_fresh:
  "\<forall>x \<in> set xs. \<not> P x \<Longrightarrow> P y \<Longrightarrow> find P (xs @ [y]) = Some y"
  by (induction xs) auto

lemma send_action_result:
  "snd (send_action cl clock send_ok action ps cb) =
     (if \<not> authenticated cl then Inl Not_authenticated
      else if send_ok then Inr (snd (get_action_id cl clock))
      else Inl Socket_error)"
  by (simp add: send_action_def Let_def split: prod.splits)

lemma AMI_originate_call_result:
  "isl (snd (AMI_originate_call cl clock send_ok ch ctx ext prio cid vars cb)) =
     (\<not> authenticated cl \<or> \<not> send_ok)"
  by (simp add: AMI_originate_call_def Let_def send_action_result)

lemma Sip_originate_call_result:
  "snd (Sip_originate_call d s now clock send_ok p ch cid) = (\<not> originate_fails d s send_ok)"
proof (cases "get_active_configuration d")
  case None
  then show ?thesis by (simp add: Sip_originate_call_def originate_fails_def)
next
  case (Some cfg)
  show ?thesis
  proof (cases "dict_get (ami_clients s) (config_id cfg)")
    case None
    then show ?thesis using Some by (simp add: Sip_originate_call_def originate_fails_def)
  next
    case (Some cl)
    let ?r = "AMI_originate_call cl clock send_ok (''SIP/'' @ config_username cfg @ ''/'' @ p)
                ''default'' p 1 (Some (''<'' @ p @ ''>''))
                [(''CALL_ID'', str_int cid), (''AGENT_CHANNEL'', ch), (''PHONE_NUMBER'', p)]
                (Some (Handle_originate_response cid))"
    have "isl (snd ?r) = (\<not> authenticated cl \<or> \<not> send_ok)"
      by (rule AMI_originate_call_result)
    then show ?thesis
      using Some \<open>get_active_configuration d = Some cfg\<close>
      by (cases ?r; cases "snd ?r")
         (auto simp: Sip_originate_call_def originate_fails_def Let_def)
  qed
qed

lemma get_active_configuration_calls [simp]:
  "get_active_configuration (d\<lparr>calls := cs\<rparr>) = get_active_configuration d"
  by (simp add: get_active_configuration_def)

lemma originate_fails_calls [simp]:
  "originate_fails (d\<lparr>calls := cs\<rparr>) s send_ok = originate_fails d s send_ok"
  by (simp add: originate_fails_def)

lemma update_agent_status_available:
  "dict_get (update_agent_status reg now a ''available'' None) a =
     Some ((case dict_get reg a of None \<Rightarrow> new_AgentStatus a ''available''
            | Some e \<Rightarrow> e\<lparr>status := ''available''\<rparr>)
           \<lparr>current_call_id := None, last_call_end := Some now\<rparr>)"
  by (simp add: update_agent_status_def dict_get_set truthy_int_def)

text \<open>The other outcome: a submitted \<open>Originate\<close> returns the call id and stamps the lead.\<close>

lemma initiate_call_successful_submission:
  assumes "get_lead (db sys) lead = Some l"
    and "\<not> originate_fails (db sys) (sip sys) send_ok"
  shows "snd (initiate_call sys now clock send_ok campaign lead agent) = Some (next_call_id (db sys))
    \<and> leads (db (fst (initiate_call sys now clock send_ok campaign lead agent))) =
        update_first (\<lambda>x. lead_id x = lead) (\<lambda>x. x\<lparr>lead_last_contacted := Some now\<rparr>)
          (leads (db sys))"
proof -
  let ?cid = "next_call_id (db sys)"
  let ?call = "\<lparr>call_id = ?cid, call_lead_id = lead, call_campaign_id = campaign,
                call_agent_id = Some agent, call_phone_number = lead_phone_number l,
                call_direction = ''outbound'', call_status = ''initiated'',
                call_started_at = Some now, call_answered_at = None,
                call_ended_at = None, call_duration_seconds = None\<rparr>"
  let ?db1 = "(db sys)\<lparr>calls := calls (db sys) @ [?call]\<rparr>"
  let ?o = "Sip_originate_call ?db1 (sip sys) now clock send_ok (lead_phone_number l)
              (''Agent/'' @ str_int agent) ?cid"
  have yes: "snd ?o = True"
    using assms(2) by (simp add: Sip_originate_call_result)
  show ?thesis
    using assms(1) yes
    by (cases ?o) (simp add: initiate_call_def Let_def split: option.splits)
qed

text \<open>
  C6. When the submission of the \<open>Originate\<close> action fails, \<open>initiate_call\<close>
  returns none; the \<open>Call\<close> row it created stays in the table, with status
  \<open>failed\<close>, and is found under its id; the agent ends with status \<open>available\<close>,
  no call id and \<open>last_call_end\<close> at the time of the attempt; and no lead is
  changed, so \<open>last_contacted\<close> is written only after a successful submission.
\<close>

theorem initiate_call_failed_submission:
  assumes "get_lead (db sys) lead = Some l"
    and "originate_fails (db sys) (sip sys) send_ok"
  shows "snd (initiate_call sys now clock send_ok campaign lead agent) = None
    \<and> calls (db (fst (initiate_call sys now clock send_ok campaign lead agent))) =
        calls (db sys) @
          [\<lparr>call_id = next_call_id (db sys), call_lead_id = lead, call_campaign_id = campaign,
            call_agent_id = Some agent, call_phone_number = lead_phone_number l,
            call_direction = ''outbound'', call_status = ''failed'',
            call_started_at = Some now, call_answered_at = None,
            call_ended_at = None, call_duration_seconds = None\<rparr>]
    \<and> get_call (db (fst (initiate_call sys now clock send_ok campaign lead agent)))
          (next_call_id (db sys)) =
        Some \<lparr>call_id = next_call_id (db sys), call_lead_id = lead, call_campaign_id = campaign,
              call_agent_id = Some agent, call_phone_number = lead_phone_number l,
              call_direction = ''outbound'', call_status = ''failed'',
              call_started_at = Some now, call_answered_at = None,
              call_ended_at = None, call_duration_seconds = None\<rparr>
    \<and> (case dict_get (agent_statuses (dialer (fst (initiate_call sys now clock send_ok campaign lead agent))))
               agent of
          None \<Rightarrow> False
        | Some e \<Rightarrow> status e = ''available'' \<and> current_call_id e = None
                     \<and> last_call_end e = Some now)
    \<and> leads (db (fst (initiate_call sys now clock send_ok campaign lead agent))) = leads (db sys)"
proof -
  let ?cid = "next_call_id (db sys)"
  let ?call = "\<lparr>call_id = ?cid, call_lead_id = lead, call_campaign_id = campaign,
                call_agent_id = Some agent, call_phone_number = lead_phone_number l,
                call_direction = ''outbound'', call_status = ''initiated'',
                call_started_at = Some now, call_answered_at = None,
                call_ended_at = None, call_duration_seconds = None\<rparr>"
  let ?db1 = "(db sys)\<lparr>calls := calls (db sys) @ [?call]\<rparr>"
  let ?reg1 = "update_agent_status (agent_statuses (dialer sys)) now agent ''on_call'' (Some ?cid)"
  let ?o = "Sip_originate_call ?db1 (sip sys) now clock send_ok (lead_phone_number l)
              (''Agent/'' @ str_int agent) ?cid"
  have no: "snd ?o = False"
    using assms(2) by (simp add: Sip_originate_call_result)
  have eq: "initiate_call sys now clock send_ok campaign lead agent =
        (\<lparr>db = ?db1\<lparr>calls := update_first (\<lambda>c. call_id c = ?cid)
                                 (\<lambda>c. c\<lparr>call_status := ''failed''\<rparr>) (calls ?db1)\<rparr>,
          dialer = \<lparr>agent_statuses = update_agent_status ?reg1 now agent ''available'' None,
                    dialer_stats = dialer_stats (dialer sys)\<rparr>,
          sip = fst ?o\<rparr>, None)"
    using assms(1) no
    by (cases ?o) (simp add: initiate_call_def Let_def)
  have fresh: "\<forall>x \<in> set (calls (db sys)). \<not> call_id x = ?cid"
    using next_call_id_fresh [of _ "db sys"] by fastforce
  have upd: "update_first (\<lambda>c. call_id c = ?cid) (\<lambda>c. c\<lparr>call_status := ''failed''\<rparr>)
               (calls (db sys) @ [?call]) = calls (db sys) @ [?call\<lparr>call_status := ''failed''\<rparr>]"
    using fresh by (intro update_first_append_fresh) simp_all
  have found: "find (\<lambda>c. call_id c = ?cid) (calls (db sys) @ [?call\<lparr>call_status := ''failed''\<rparr>])
                 = Some (?call\<lparr>call_status := ''failed''\<rparr>)"
    using fresh by (intro find_append_fresh) simp_all
  have agent: "dict_get (update_agent_status ?reg1 now agent ''available'' None) agent =
     Some ((case dict_get ?reg1 agent of None \<Rightarrow> new_AgentStatus agent ''available''
            | Some e \<Rightarrow> e\<lparr>status := ''available''\<rparr>)
           \<lparr>current_call_id := None, last_call_end := Some now\<rparr>)"
    by (rule update_agent_status_available)
  have a: "snd (initiate_call sys now clock send_ok campaign lead agent) = None"
    by (simp add: eq)
  have b: "calls (db (fst (initiate_call sys now clock send_ok campaign lead agent))) =
        calls (db sys) @ [?call\<lparr>call_status := ''failed''\<rparr>]"
    using upd by (simp add: eq)
  have c: "get_call (db (fst (initiate_call sys now clock send_ok campaign lead agent))) ?cid =
        Some (?call\<lparr>call_status := ''failed''\<rparr>)"
    using found b by (simp add: get_call_def)
  have d: "case dict_get (agent_statuses (dialer (fst (initiate_call sys now clock send_ok campaign lead agent))))
               agent of
          None \<Rightarrow> False
        | Some e \<Rightarrow> status e = ''available'' \<and> current_call_id e = None
                     \<and> last_call_end e = Some now"
    using agent by (simp add: eq new_AgentStatus_def split: option.splits)
  have e: "leads (db (fst (initiate_call sys now clock send_ok campaign lead agent))) = leads (db sys)"
    by (simp add: eq)
  show ?thesis
    using a b c d e by simp
qed

theorem initiate_call_failed_submission_witness:
  "get_lead (db (initial_system (example_database [example_lead 1 ''5550001'' 1] []) example_sip)) 1
     = Some (example_lead 1 ''5550001'' 1)
   \<and> originate_fails (db (initial_system (example_database [example_lead 1 ''5550001'' 1] []) example_sip))
        (sip (initial_system (example_database [example_lead 1 ''5550001'' 1] []) example_sip)) False
   \<and> snd (initiate_call (initial_system (example_database [example_lead 1 ''5550001'' 1] []) example_sip)
             1000000 17 False 1 1 1) = None
   \<and> map (\<lambda>c. (call_id c, call_status c))
        (calls (db (fst (initiate_call
           (initial_system (example_database [example_lead 1 ''5550001'' 1] []) example_sip)
           1000000 17 False 1 1 1)))) = [(1, ''failed'')]
   \<and> leads (db (fst (initiate_call
           (initial_system (example_database [example_lead 1 ''5550001'' 1] []) example_sip)
           1000000 17 False 1 1 1))) = [example_lead 1 ''5550001'' 1]"
proof -
  let ?sys = "initial_system (example_database [example_lead 1 ''5550001'' 1] []) example_sip"
  have lead: "get_lead (db ?sys) 1 = Some (example_lead 1 ''5550001'' 1)"
    by code_simp
  have fails: "originate_fails (db ?sys) (sip ?sys) False"
    by code_simp
  have fresh: "next_call_id (db ?sys) = 1"
    by code_simp
  have before: "calls (db ?sys) = []" "leads (db ?sys) = [example_lead 1 ''5550001'' 1]"
    by (simp_all add: initial_system_def example_database_def)
  show ?thesis
    using lead fails fresh before
      initiate_call_failed_submission [OF lead fails, of 1000000 17 1 1]
    by simp
qed

section \<open>Hangup event\<close>

lemma find_filter_head: "filter P xs = x # rest \<Longrightarrow> find P xs = Some x"
proof (induction xs)
  case Nil
  then show ?case by simp
next
  case (Cons y ys)
  then show ?case by (cases "P y") simp_all
qed

lemma find_filter_empty: "filter P xs = [] \<Longrightarrow> find P xs = None"
  by (induction xs) (auto split: if_splits)

lemma find_update_first:
  "\<forall>x. P x \<longrightarrow> P (f x) \<Longrightarrow> find P (update_first P f xs) = map_option f (find P xs)"
  by (induction xs) auto

lemma filter_dict_del:
  "distinct (map fst d) \<Longrightarrow>
   filter Q (dict_del d k) = filter (\<lambda>x. Q x \<and> fst x \<noteq> k) d"
proof (induction d)
  case Nil
  show ?case by simp
next
  case (Cons p d)
  obtain k' v' where p: "p = (k', v')" by (cases p)
  show ?case
  proof (cases "k' = k")
    case True
    then have "k \<notin> fst ` set d" using Cons.prems p by auto
    then have "\<forall>x \<in> set d. fst x \<noteq> k" by auto
    then have "filter (\<lambda>x. Q x \<and> fst x \<noteq> k) d = filter Q d"
      by (intro filter_cong) auto
    then show ?thesis using True p by simp
  next
    case False
    then show ?thesis using Cons p by simp
  qed
qed

lemma dict_get_del_same: "distinct (map fst d) \<Longrightarrow> dict_get (dict_del d k) k = None"
proof (induction d)
  case Nil
  show ?case by (simp add: dict_get_def)
next
  case (Cons p d)
  obtain k' v' where p: "p = (k', v')" by (cases p)
  show ?case
  proof (cases "k' = k")
    case True
    then have "k \<notin> fst ` set d" using Cons.prems p by auto
    then have "map_of d k = None" by (simp add: map_of_eq_None_iff)
    then show ?thesis using True p by (simp add: dict_get_def)
  next
    case False
    then show ?thesis using Cons p by (simp add: dict_get_def)
  qed
qed

text \<open>
  C4, as the code has it. For a call that is the only in-flight call on its
  channel, the \<open>Hangup\<close> event sets the status to \<open>completed\<close>, \<open>ended_at\<close> to now
  and, when the call has a start time, the duration to the whole seconds between
  the two; it appends a \<open>hangup\<close> call event, removes the call from the active
  calls and broadcasts \<open>call_ended\<close> once. The dialer service, and so the status
  of the owning agent, is left as it was. A replay of the event changes nothing:
  one terminal transition and one broadcast in total.
\<close>

theorem handle_hangup_completes_call:
  assumes channel: "dict_get event ''Channel'' = Some ch" "ch \<noteq> []"
    and keys: "distinct (map fst (active_calls (sip sys)))"
    and only: "filter (\<lambda>(k, i). info_channel i = ch) (active_calls (sip sys)) = [(cid, info)]"
    and row: "get_call (db sys) cid = Some call"
  shows "get_call (db (handle_hangup sys now event)) cid =
           Some (call\<lparr>call_status := ''completed'', call_ended_at := Some now,
                      call_duration_seconds :=
                        (case call_started_at call of
                           None \<Rightarrow> call_duration_seconds call
                         | Some s \<Rightarrow> Some (whole_seconds (now - s)))\<rparr>)
    \<and> dict_get (active_calls (sip (handle_hangup sys now event))) cid = None
    \<and> filter (\<lambda>(k, i). info_channel i = ch) (active_calls (sip (handle_hangup sys now event))) = []
    \<and> notifications (sip (handle_hangup sys now event)) =
         notifications (sip sys) @ [(''call_ended'', cid, event)]
    \<and> call_events (db (handle_hangup sys now event)) =
         call_events (db sys) @
           [\<lparr>event_call_id = cid, event_type = ''hangup'', event_data = set_event_data event,
             event_timestamp = Some now\<rparr>]
    \<and> dialer (handle_hangup sys now event) = dialer sys
    \<and> handle_hangup (handle_hangup sys now event) later event = handle_hangup sys now event"
proof -
  let ?P = "\<lambda>(k, i). info_channel i = ch"
  let ?f = "\<lambda>c. calculate_duration (c\<lparr>call_status := ''completed'', call_ended_at := Some now\<rparr>)"
  have found: "find ?P (active_calls (sip sys)) = Some (cid, info)"
    using only by (rule find_filter_head)
  have eq: "handle_hangup sys now event =
      sys\<lparr>db := (db sys)
             \<lparr>calls := update_first (\<lambda>c. call_id c = cid) ?f (calls (db sys)),
              call_events := call_events (db sys) @
                 [\<lparr>event_call_id = cid, event_type = ''hangup'',
                   event_data = set_event_data event, event_timestamp = Some now\<rparr>]\<rparr>,
          sip := (sip sys)
             \<lparr>active_calls := dict_del (active_calls (sip sys)) cid,
              notifications := notifications (sip sys) @ [(''call_ended'', cid, event)]\<rparr>\<rparr>"
    using channel found row by (simp add: handle_hangup_def)
  have keep: "\<forall>x. call_id x = cid \<longrightarrow> call_id (?f x) = cid"
    by (simp add: calculate_duration_def split: option.splits)
  have "find (\<lambda>c. call_id c = cid) (update_first (\<lambda>c. call_id c = cid) ?f (calls (db sys)))
          = map_option ?f (find (\<lambda>c. call_id c = cid) (calls (db sys)))"
    using keep by (rule find_update_first)
  then have a: "get_call (db (handle_hangup sys now event)) cid =
           Some (call\<lparr>call_status := ''completed'', call_ended_at := Some now,
                      call_duration_seconds :=
                        (case call_started_at call of
                           None \<Rightarrow> call_duration_seconds call
                         | Some s \<Rightarrow> Some (whole_seconds (now - s)))\<rparr>)"
    using row by (simp add: eq get_call_def calculate_duration_def split: option.splits)
  have b: "dict_get (active_calls (sip (handle_hangup sys now event))) cid = None"
    using keys by (simp add: eq dict_get_del_same)
  have "filter ?P (dict_del (active_calls (sip sys)) cid)
          = filter (\<lambda>x. ?P x \<and> fst x \<noteq> cid) (active_calls (sip sys))"
    using keys by (rule filter_dict_del)
  also have "\<dots> = filter (\<lambda>x. fst x \<noteq> cid) (filter ?P (active_calls (sip sys)))"
    by (simp add: conj_commute)
  also have "\<dots> = []"
    using only by simp
  finally have c: "filter ?P (active_calls (sip (handle_hangup sys now event))) = []"
    by (simp add: eq)
  have d: "notifications (sip (handle_hangup sys now event)) =
         notifications (sip sys) @ [(''call_ended'', cid, event)]"
    by (simp add: eq)
  have e: "call_events (db (handle_hangup sys now event)) =
         call_events (db sys) @
           [\<lparr>event_call_id = cid, event_type = ''hangup'', event_data = set_event_data event,
             event_timestamp = Some now\<rparr>]"
    by (simp add: eq)
  have f: "dialer (handle_hangup sys now event) = dialer sys"
    by (simp add: eq)
  have "find ?P (active_calls (sip (handle_hangup sys now event))) = None"
    using c by (rule find_filter_empty)
  then have g: "handle_hangup (handle_hangup sys now event) later event = handle_hangup sys now event"
    using channel by (simp add: handle_hangup_def [of "handle_hangup sys now event"])
  show ?thesis
    using a b c d e f g by simp
qed

theorem handle_hangup_completes_call_witness:
  "dict_get example_hangup ''Channel'' = Some ''SIP/trunk/5550001''
   \<and> distinct (map fst (active_calls (sip example_in_flight)))
   \<and> filter (\<lambda>(k, i). info_channel i = ''SIP/trunk/5550001'') (active_calls (sip example_in_flight))
       = [(1, example_call_info)]
   \<and> get_call (db example_in_flight) 1 = Some (example_call 1 ''initiated'' 1000000)
   \<and> map (\<lambda>c. (call_id c, call_status c, call_ended_at c, call_duration_seconds c))
        (calls (db (handle_hangup example_in_flight 43500000 example_hangup)))
       = [(1, ''completed'', Some 43500000, Some 42)]
   \<and> notifications (sip (handle_hangup example_in_flight 43500000 example_hangup))
       = [(''call_ended'', 1, example_hangup)]
   \<and> handle_hangup (handle_hangup example_in_flight 43500000 example_hangup) 50000000 example_hangup
       = handle_hangup example_in_flight 43500000 example_hangup"
proof -
  have channel: "dict_get example_hangup ''Channel'' = Some ''SIP/trunk/5550001''"
    by code_simp
  have nonempty: "''SIP/trunk/5550001'' \<noteq> []"
    by simp
  have keys: "distinct (map fst (active_calls (sip example_in_flight)))"
    by code_simp
  have only: "filter (\<lambda>(k, i). info_channel i = ''SIP/trunk/5550001'')
                (active_calls (sip example_in_flight)) = [(1, example_call_info)]"
    by code_simp
  have row: "get_call (db example_in_flight) 1 = Some (example_call 1 ''initiated'' 1000000)"
    by code_simp
  have rows: "map (\<lambda>c. (call_id c, call_status c, call_ended_at c, call_duration_seconds c))
        (calls (db (handle_hangup example_in_flight 43500000 example_hangup)))
       = [(1, ''completed'', Some 43500000, Some 42)]"
    by code_simp
  have before: "notifications (sip example_in_flight) = []"
    by code_simp
  show ?thesis
    using channel keys only row rows before
      handle_hangup_completes_call [OF channel nonempty keys only row, of 43500000 50000000]
    by simp
qed

text \<open>
  C4, as the specification states it, fails: after the \<open>Hangup\<close> of call 1 the call
  is \<open>completed\<close>, and agent 1, who owns it, is still \<open>on_call\<close> with that call id.
\<close>

theorem handle_hangup_leaves_agent_on_call:
  "map (\<lambda>c. (call_id c, call_agent_id c, call_status c))
     (calls (db (handle_hangup example_in_flight 43500000 example_hangup)))
     = [(1, Some 1, ''completed'')]
   \<and> map (\<lambda>(a, e). (a, status e, current_call_id e))
       (agent_statuses (dialer (handle_hangup example_in_flight 43500000 example_hangup)))
     = [(1, ''on_call'', Some 1)]"
  by code_simp

end
